theory Spec2Isabelle
  imports Complex_Main
begin

section \<open>Formulas of the raster calculator\<close>

text \<open>
  The plugin hands the raster calculator a formula as text and never evaluates it. The
  two formulas of \<^verbatim>\<open>lst_plugin.py\<close> are kept here as syntax trees, read off the text
  with the usual precedence (\<^verbatim>\<open>*\<close> and \<^verbatim>\<open>/\<close> bind tighter than \<^verbatim>\<open>+\<close> and \<^verbatim>\<open>-\<close>,
  all four associate to the left):
  \<^item> \<^verbatim>\<open>({ml} * 1.0 * "b10@1") + {al}\<close> in \<^verbatim>\<open>calculate_toa\<close>;
  \<^item> \<^verbatim>\<open>({k2} / ln( ({k1} / ("toa@1" + 0.000001) + 1 )) ) - 273.15\<close> in
    \<^verbatim>\<open>calculate_bt\<close>, whose \<^verbatim>\<open>replace('  ', ' ').strip()\<close> only touches blanks.
  What a formula evaluates to is the engine's business, \<open>process_calculation\<close> below.
\<close>

datatype expr =
    Num real
  | Ref string
  | Add expr expr
  | Sub expr expr
  | Mul expr expr
  | Div expr expr
  | Ln expr

text \<open>\<^verbatim>\<open>formula = f'({ml} * 1.0 * "b10@1") + {al}'\<close>\<close>

definition toa_formula :: "real \<Rightarrow> real \<Rightarrow> expr" where
  "toa_formula ml al = Add (Mul (Mul (Num ml) (Num 1.0)) (Ref ''b10@1'')) (Num al)"

text \<open>
  \<^verbatim>\<open>k1 = 774.89\<close>, \<^verbatim>\<open>k2 = 1321.08\<close> and
  \<^verbatim>\<open>formula = f'({k2} / ln( ({k1} / ("toa@1" + 0.000001) + 1 )) ) - 273.15'\<close>
\<close>

definition k1 :: real where
  "k1 = 774.89"

definition k2 :: real where
  "k2 = 1321.08"

definition bt_formula :: expr where
  "bt_formula =
     Sub (Div (Num k2)
              (Ln (Add (Div (Num k1) (Add (Ref ''toa@1'') (Num 0.000001))) (Num 1))))
         (Num 273.15)"

section \<open>Data of the plugin and of its collaborators\<close>

text \<open>
  An f-string is kept as the list of its pieces: the literal text and the interpolated
  values, whose rendering as digits is left to Python (an integer, a statistic that
  may be \<^verbatim>\<open>None\<close>, a formula).
\<close>

datatype frag = S string | I int | V "real option" | F expr

type_synonym msg = "frag list"

text \<open>
  The exceptions the plugin raises itself are all of class \<^verbatim>\<open>Exception\<close>; the other
  constructors are the classes a collaborator may raise: \<^verbatim>\<open>PermissionError\<close> and any
  other \<^verbatim>\<open>OSError\<close> from \<^verbatim>\<open>os.remove\<close>, \<^verbatim>\<open>IndexError\<close> from \<^verbatim>\<open>entries[0]\<close>,
  \<^verbatim>\<open>RuntimeError\<close> for the rest. All are subclasses of \<^verbatim>\<open>Exception\<close>.
\<close>

datatype pyexn =
    Exception msg
  | PermissionError msg
  | OSError msg
  | IndexError msg
  | RuntimeError msg

fun str :: "pyexn \<Rightarrow> msg" where
  "str (Exception m) = m"
| "str (PermissionError m) = m"
| "str (OSError m) = m"
| "str (IndexError m) = m"
| "str (RuntimeError m) = m"

text \<open>\<^verbatim>\<open>isinstance(e, PermissionError)\<close>\<close>

fun is_PermissionError :: "pyexn \<Rightarrow> bool" where
  "is_PermissionError (PermissionError m) = True"
| "is_PermissionError e = False"

datatype level = Info | Critical | Success

record dataset =
  ds_extent :: "real \<times> real \<times> real \<times> real"
  ds_width :: nat
  ds_height :: nat
  ds_pixels :: "real list"

datatype fentry = RasterFile dataset | OtherFile

type_synonym filesystem = "string \<Rightarrow> fentry option"

datatype qcolor = QColor nat nat nat

record color_ramp_item =
  item_value :: real
  item_color :: qcolor
  item_label :: string

datatype ramp_type = Interpolated | Discrete | Exact

record pseudo_color_renderer =
  renderer_band :: nat
  color_ramp_type :: ramp_type
  color_ramp_items :: "color_ramp_item list"

text \<open>
  A \<^verbatim>\<open>QgsRasterLayer\<close>: its source path, its name, the dataset its provider
  opened (none when the layer is not valid) and the renderer set on it.
\<close>

record layer =
  source :: string
  layer_name :: string
  provider :: "dataset option"
  renderer :: "pseudo_color_renderer option"

record stats =
  minimumValue :: "real option"
  maximumValue :: "real option"

text \<open>A \<^verbatim>\<open>QgsRasterCalculatorEntry\<close>.\<close>

record entry =
  ref :: string
  raster :: layer
  bandNumber :: nat

text \<open>The arguments of the \<^verbatim>\<open>QgsRasterCalculator\<close> constructor.\<close>

record calculator =
  formula_string :: expr
  output_file :: string
  output_format :: string
  output_extent :: "real \<times> real \<times> real \<times> real"
  n_columns :: nat
  n_rows :: nat
  raster_entries :: "entry list"

text \<open>
  What a run can change: the files on disk, the layers of the \<^verbatim>\<open>QgsProject\<close>, the
  message bar and the message log.
\<close>

record world =
  files :: filesystem
  project_layers :: "layer list"
  message_bar :: "(level \<times> string \<times> msg) list"
  message_log :: "(msg \<times> string \<times> level) list"

text \<open>
  The collaborators the plugin calls and does not implement, taken as parameters:
  \<^item> \<open>home_path\<close>: \<^verbatim>\<open>QgsProject.instance().homePath()\<close>;
  \<^item> \<open>remove_error\<close>: the exception \<^verbatim>\<open>os.remove\<close> raises on a path, if any;
  \<^item> \<open>band_statistics\<close>: \<^verbatim>\<open>dataProvider().bandStatistics(1, All)\<close> of a layer,
    which as any Python call returns or raises;
  \<^item> \<open>process_calculation\<close>: \<^verbatim>\<open>QgsRasterCalculator.processCalculation\<close>, which
    returns a result code and may write files.
\<close>

record env =
  home_path :: string
  remove_error :: "world \<Rightarrow> string \<Rightarrow> pyexn option"
  band_statistics :: "layer \<Rightarrow> pyexn + stats"
  process_calculation :: "calculator \<Rightarrow> filesystem \<Rightarrow> int \<times> filesystem"

section \<open>The collaborators' primitives\<close>

text \<open>\<^verbatim>\<open>QgsMessageLog.logMessage(message, tag, level)\<close>\<close>

definition logMessage :: "msg \<Rightarrow> string \<Rightarrow> level \<Rightarrow> world \<Rightarrow> world" where
  "logMessage m tag lv w = w\<lparr>message_log := message_log w @ [(m, tag, lv)]\<rparr>"

text \<open>\<^verbatim>\<open>iface.messageBar().pushCritical(title, text)\<close> and \<^verbatim>\<open>pushSuccess\<close>\<close>

definition pushCritical :: "string \<Rightarrow> msg \<Rightarrow> world \<Rightarrow> world" where
  "pushCritical title m w = w\<lparr>message_bar := message_bar w @ [(Critical, title, m)]\<rparr>"

definition pushSuccess :: "string \<Rightarrow> msg \<Rightarrow> world \<Rightarrow> world" where
  "pushSuccess title m w = w\<lparr>message_bar := message_bar w @ [(Success, title, m)]\<rparr>"

text \<open>\<^verbatim>\<open>QgsProject.instance().addMapLayer(layer)\<close>\<close>

definition addMapLayer :: "layer \<Rightarrow> world \<Rightarrow> world" where
  "addMapLayer l w = w\<lparr>project_layers := project_layers w @ [l]\<rparr>"

text \<open>
  \<^verbatim>\<open>QgsRasterLayer(path, name)\<close>: the layer is valid when the file at the path holds a
  raster.
\<close>

definition QgsRasterLayer :: "filesystem \<Rightarrow> string \<Rightarrow> string \<Rightarrow> layer" where
  "QgsRasterLayer fs path name =
     \<lparr>source = path, layer_name = name,
      provider = (case fs path of Some (RasterFile d) \<Rightarrow> Some d | Some OtherFile \<Rightarrow> None
                  | None \<Rightarrow> None),
      renderer = None\<rparr>"

definition isValid :: "layer \<Rightarrow> bool" where
  "isValid l = (provider l \<noteq> None)"

definition extent :: "layer \<Rightarrow> real \<times> real \<times> real \<times> real" where
  "extent l = (case provider l of Some d \<Rightarrow> ds_extent d | None \<Rightarrow> (0, 0, 0, 0))"

definition width :: "layer \<Rightarrow> nat" where
  "width l = (case provider l of Some d \<Rightarrow> ds_width d | None \<Rightarrow> 0)"

definition height :: "layer \<Rightarrow> nat" where
  "height l = (case provider l of Some d \<Rightarrow> ds_height d | None \<Rightarrow> 0)"

text \<open>\<^verbatim>\<open>os.path.join(a, b)\<close> with the separator \<^verbatim>\<open>/\<close>.\<close>

definition path_join :: "string \<Rightarrow> string \<Rightarrow> string" where
  "path_join a b =
     (if b \<noteq> [] \<and> hd b = CHR ''/'' then b
      else if a = [] \<or> last a = CHR ''/'' then a @ b
      else a @ ''/'' @ b)"

text \<open>\<^verbatim>\<open>os.path.exists(path)\<close>\<close>

definition path_exists :: "world \<Rightarrow> string \<Rightarrow> bool" where
  "path_exists w path = (files w path \<noteq> None)"

text \<open>\<^verbatim>\<open>os.remove(path)\<close>: raises, or the file is gone.\<close>

definition os_remove :: "env \<Rightarrow> string \<Rightarrow> world \<Rightarrow> pyexn + world" where
  "os_remove en path w =
     (case remove_error en w path of
        Some e \<Rightarrow> Inl e
      | None \<Rightarrow> Inr (w\<lparr>files := (files w)(path := None)\<rparr>))"

section \<open>The plugin\<close>

text \<open>
  A function of the plugin that can raise returns the exception or its result, and the
  world as it is at that moment: what was logged or deleted before a raise stays so.
\<close>

text \<open>\<^verbatim>\<open>create_raster_entry(layer, prefix)\<close>\<close>

definition create_raster_entry :: "layer \<Rightarrow> string \<Rightarrow> entry" where
  "create_raster_entry l prefix = \<lparr>ref = prefix @ ''@1'', raster = l, bandNumber = 1\<rparr>"

text \<open>
  Lines 95 to 99 of \<^verbatim>\<open>raster_calculation\<close>, under \<^verbatim>\<open># Cleanup existing file\<close>:
  only \<^verbatim>\<open>PermissionError\<close> is caught.
\<close>

definition cleanup_existing_file :: "env \<Rightarrow> string \<Rightarrow> world \<Rightarrow> pyexn + world" where
  "cleanup_existing_file en output_path w =
     (if path_exists w output_path then
        (case os_remove en output_path w of
           Inr w' \<Rightarrow> Inr w'
         | Inl (PermissionError m) \<Rightarrow>
             Inl (Exception [S ''File in use: '', S output_path, S ''. Close other programs.''])
         | Inl e \<Rightarrow> Inl e)
      else Inr w)"

text \<open>
  Lines 102 to 109, under \<^verbatim>\<open># Validate input layers\<close>: the loop over the entries.
\<close>

fun validate_input_layers :: "env \<Rightarrow> entry list \<Rightarrow> world \<Rightarrow> (pyexn + unit) \<times> world" where
  "validate_input_layers en [] w = (Inr (), w)"
| "validate_input_layers en (e # es) w =
     (if \<not> isValid (raster e) then
        (Inl (Exception [S ''Invalid input layer: '', S (source (raster e))]), w)
      else
        (case band_statistics en (raster e) of
           Inl x \<Rightarrow> (Inl x, w)
         | Inr st \<Rightarrow>
             validate_input_layers en es
               (logMessage [S ''Input '', S (ref e), S '' - Min: '', V (minimumValue st),
                            S '', Max: '', V (maximumValue st)] ''LST Plugin'' Info w)))"

text \<open>The dictionary \<^verbatim>\<open>error_map\<close> of line 127.\<close>

definition error_map :: "int \<Rightarrow> string option" where
  "error_map =
     [1 \<mapsto> ''Missing input layers'',
      2 \<mapsto> ''Invalid formula syntax'',
      3 \<mapsto> ''Calculation error (e.g., division by zero)'',
      4 \<mapsto> ''GDAL internal error'']"

text \<open>\<^verbatim>\<open>error_map.get(result, 'Unknown error')\<close>\<close>

definition error_map_get :: "int \<Rightarrow> string" where
  "error_map_get result = (case error_map result of Some m \<Rightarrow> m | None \<Rightarrow> ''Unknown error'')"

text \<open>
  Lines 126 to 146: what follows \<^verbatim>\<open>processCalculation\<close>, given its result code;
  the world already holds the files the engine wrote.
\<close>

definition check_result ::
  "env \<Rightarrow> int \<Rightarrow> string \<Rightarrow> string \<Rightarrow> world \<Rightarrow> (pyexn + layer) \<times> world" where
  "check_result en result output_path output_name w =
     (if result \<noteq> 0 then
        (Inl (Exception [S ''GDAL Error '', I result, S '': '', S (error_map_get result)]), w)
      else
        (let result_layer = QgsRasterLayer (files w) output_path output_name in
         if \<not> isValid result_layer then
           (Inl (Exception [S ''Failed to create output layer: '', S output_path]), w)
         else
           (case band_statistics en result_layer of
              Inl x \<Rightarrow> (Inl x, w)
            | Inr st \<Rightarrow>
                (Inr result_layer,
                 logMessage [S ''Output '', S output_name, S '' - Min: '', V (minimumValue st),
                             S '', Max: '', V (maximumValue st)] ''LST Plugin'' Info w))))"

text \<open>
  Lines 111 to 124: the calculator is built on the grid of \<^verbatim>\<open>entries[0]\<close> (an
  \<^verbatim>\<open>IndexError\<close> when there is no entry), the formula is logged and the engine runs.
\<close>

definition run_calculator ::
  "env \<Rightarrow> expr \<Rightarrow> entry list \<Rightarrow> string \<Rightarrow> string \<Rightarrow> world \<Rightarrow> (pyexn + layer) \<times> world" where
  "run_calculator en formula entries output_path output_name w =
     (case entries of
        [] \<Rightarrow> (Inl (IndexError [S ''list index out of range'']), w)
      | e0 # _ \<Rightarrow>
          (let calc = \<lparr>formula_string = formula, output_file = output_path,
                       output_format = ''GTiff'', output_extent = extent (raster e0),
                       n_columns = width (raster e0), n_rows = height (raster e0),
                       raster_entries = entries\<rparr>;
               w1 = logMessage [S ''Executing formula: '', F formula] ''LST Plugin'' Info w;
               (result, fs) = process_calculation en calc (files w1)
           in check_result en result output_path output_name (w1\<lparr>files := fs\<rparr>)))"

text \<open>\<^verbatim>\<open>raster_calculation(formula, entries, output_name)\<close>, lines 89 to 146.\<close>

definition output_path_of :: "env \<Rightarrow> string \<Rightarrow> string" where
  "output_path_of en output_name = path_join (home_path en) (output_name @ ''.tif'')"

definition raster_calculation ::
  "env \<Rightarrow> expr \<Rightarrow> entry list \<Rightarrow> string \<Rightarrow> world \<Rightarrow> (pyexn + layer) \<times> world" where
  "raster_calculation en formula entries output_name w =
     (let output_path = output_path_of en output_name in
      case cleanup_existing_file en output_path w of
        Inl e \<Rightarrow> (Inl e, w)
      | Inr w1 \<Rightarrow>
          (case validate_input_layers en entries w1 of
             (Inl e, w2) \<Rightarrow> (Inl e, w2)
           | (Inr u, w2) \<Rightarrow> run_calculator en formula entries output_path output_name w2))"

text \<open>\<^verbatim>\<open>calculate_toa(band_layer, ml, al)\<close>\<close>

definition calculate_toa ::
  "env \<Rightarrow> layer \<Rightarrow> real \<Rightarrow> real \<Rightarrow> world \<Rightarrow> (pyexn + layer) \<times> world" where
  "calculate_toa en band_layer ml al w =
     (let ent = create_raster_entry band_layer ''b10'';
          formula = toa_formula ml al
      in raster_calculation en formula [ent] ''TOA_Radiance'' w)"

text \<open>\<^verbatim>\<open>calculate_bt(toa_layer)\<close>: the formula is logged before the entry is made.\<close>

definition calculate_bt :: "env \<Rightarrow> layer \<Rightarrow> world \<Rightarrow> (pyexn + layer) \<times> world" where
  "calculate_bt en toa_layer w =
     (let formula = bt_formula;
          w1 = logMessage [S ''BT Formula: '', F formula] ''LST Plugin'' Info w;
          ent = create_raster_entry toa_layer ''toa''
      in raster_calculation en formula [ent] ''BrightnessTemp'' w1)"

text \<open>
  The items of \<^verbatim>\<open>style_thermal_layer\<close>, lines 154 to 161. The degree sign of the
  labels is its two bytes in UTF-8.
\<close>

definition degree_C :: string where
  "degree_C = [char_of (0xC2 :: nat), char_of (0xB0 :: nat), CHR ''C'']"

definition items :: "color_ramp_item list" where
  "items =
     [\<lparr>item_value = 20, item_color = QColor 0 0 255, item_label = ''20'' @ degree_C\<rparr>,
      \<lparr>item_value = 30, item_color = QColor 0 255 255, item_label = ''30'' @ degree_C\<rparr>,
      \<lparr>item_value = 40, item_color = QColor 0 255 0, item_label = ''40'' @ degree_C\<rparr>,
      \<lparr>item_value = 50, item_color = QColor 255 255 0, item_label = ''50'' @ degree_C\<rparr>,
      \<lparr>item_value = 60, item_color = QColor 255 165 0, item_label = ''60'' @ degree_C\<rparr>,
      \<lparr>item_value = 70, item_color = QColor 255 0 0, item_label = ''70'' @ degree_C\<rparr>]"

text \<open>
  \<^verbatim>\<open>style_thermal_layer(layer)\<close>: an interpolated colour ramp over the items above, in a
  single-band pseudo-colour renderer on band 1, set on the layer.
\<close>

definition style_thermal_layer :: "layer \<Rightarrow> layer" where
  "style_thermal_layer l =
     l\<lparr>renderer := Some \<lparr>renderer_band = 1, color_ramp_type = Interpolated,
                          color_ramp_items = items\<rparr>\<rparr>"

text \<open>The body of the \<^verbatim>\<open>try\<close> of \<^verbatim>\<open>calculate_lst\<close>, lines 36 to 55.\<close>

definition calculate_lst_try :: "env \<Rightarrow> string \<Rightarrow> world \<Rightarrow> (pyexn + unit) \<times> world" where
  "calculate_lst_try en band10_path w =
     (let band10_layer = QgsRasterLayer (files w) band10_path ''B10_RAW'' in
      if \<not> isValid band10_layer then
        (Inl (Exception [S ''Invalid Band 10 file. Check file format and path.'']), w)
      else
        (let ml = 0.0003342; al = 0.1;
             w1 = logMessage [S ''Calculating TOA...''] ''LST Plugin'' Info w
         in case calculate_toa en band10_layer ml al w1 of
              (Inl e, w2) \<Rightarrow> (Inl e, w2)
            | (Inr toa_layer, w2) \<Rightarrow>
                (let w3 = logMessage [S ''Calculating BT...''] ''LST Plugin'' Info w2
                 in case calculate_bt en toa_layer w3 of
                      (Inl e, w4) \<Rightarrow> (Inl e, w4)
                    | (Inr bt_layer, w4) \<Rightarrow>
                        (let styled = style_thermal_layer bt_layer;
                             w5 = addMapLayer styled w4
                         in (Inr (), pushSuccess ''Success'' [S ''LST calculation completed!''] w5)))))"

text \<open>
  \<^verbatim>\<open>calculate_lst(band10_path)\<close>: the handler \<^verbatim>\<open>except Exception as e\<close> of lines 57
  to 59 receives every exception of the body.
\<close>

definition calculate_lst :: "env \<Rightarrow> string \<Rightarrow> world \<Rightarrow> world" where
  "calculate_lst en band10_path w =
     (case calculate_lst_try en band10_path w of
        (Inr u, w') \<Rightarrow> w'
      | (Inl e, w') \<Rightarrow>
          logMessage (S ''Error: '' # str e) ''LST Plugin'' Critical
            (pushCritical ''Error'' (str e) w'))"

section \<open>Concrete collaborators and worlds\<close>

text \<open>
  Explicit inputs on which the plugin is run below: a one-pixel band 10 raster with the
  digital number 120 in a project whose home path is empty, so that the outputs are
  \<^verbatim>\<open>TOA_Radiance.tif\<close> and \<^verbatim>\<open>BrightnessTemp.tif\<close>; engines that write a raster, or
  only return a result code; statistics that return numbers, \<^verbatim>\<open>None\<close>, or raise;
  files that can be deleted, that are locked, or that are locked while the project shows
  them as a layer.
\<close>

definition example_dataset :: dataset where
  "example_dataset =
     \<lparr>ds_extent = (0, 0, 30, 30), ds_width = 1, ds_height = 1, ds_pixels = [120]\<rparr>"

definition example_output :: dataset where
  "example_output =
     \<lparr>ds_extent = (0, 0, 30, 30), ds_width = 1, ds_height = 1, ds_pixels = [1]\<rparr>"

definition example_world :: world where
  "example_world =
     \<lparr>files = Map.empty(''b10.tif'' := Some (RasterFile example_dataset)),
      project_layers = [], message_bar = [], message_log = []\<rparr>"

definition stale_world :: world where
  "stale_world =
     example_world\<lparr>files := (files example_world)(''TOA_Radiance.tif'' := Some OtherFile)\<rparr>"

definition example_layer :: layer where
  "example_layer = QgsRasterLayer (files example_world) ''b10.tif'' ''B10_RAW''"

definition example_entry :: entry where
  "example_entry = create_raster_entry example_layer ''b10''"

definition writing_engine :: "calculator \<Rightarrow> filesystem \<Rightarrow> int \<times> filesystem" where
  "writing_engine c fs = (0, fs(output_file c := Some (RasterFile example_output)))"

definition code_engine :: "int \<Rightarrow> calculator \<Rightarrow> filesystem \<Rightarrow> int \<times> filesystem" where
  "code_engine r c fs = (r, fs)"

definition never_locked :: "world \<Rightarrow> string \<Rightarrow> pyexn option" where
  "never_locked w p = None"

definition always_locked :: "world \<Rightarrow> string \<Rightarrow> pyexn option" where
  "always_locked w p = Some (PermissionError [S ''[Errno 13] Permission denied''])"

definition is_a_directory :: "world \<Rightarrow> string \<Rightarrow> pyexn option" where
  "is_a_directory w p = Some (OSError [S ''[Errno 21] Is a directory''])"

definition locked_by_project :: "world \<Rightarrow> string \<Rightarrow> pyexn option" where
  "locked_by_project w p =
     (if p \<in> set (map source (project_layers w))
      then Some (PermissionError [S ''[WinError 32] file is being used by another process''])
      else None)"

definition unit_statistics :: "layer \<Rightarrow> pyexn + stats" where
  "unit_statistics l = Inr \<lparr>minimumValue = Some 0, maximumValue = Some 1\<rparr>"

definition none_statistics :: "layer \<Rightarrow> pyexn + stats" where
  "none_statistics l = Inr \<lparr>minimumValue = None, maximumValue = None\<rparr>"

definition failing_statistics :: "layer \<Rightarrow> pyexn + stats" where
  "failing_statistics l = Inl (RuntimeError [S ''statistics failed''])"

definition output_failing_statistics :: "layer \<Rightarrow> pyexn + stats" where
  "output_failing_statistics l =
     (if layer_name l = ''B10_RAW'' then Inr \<lparr>minimumValue = Some 0, maximumValue = Some 1\<rparr>
      else Inl (RuntimeError [S ''statistics failed'']))"

definition example_env :: env where
  "example_env = \<lparr>home_path = [], remove_error = never_locked,
                   band_statistics = unit_statistics, process_calculation = writing_engine\<rparr>"

definition locked_env :: env where
  "locked_env = example_env\<lparr>remove_error := locked_by_project\<rparr>"

definition env_with_code :: "int \<Rightarrow> env" where
  "env_with_code r = example_env\<lparr>process_calculation := code_engine r\<rparr>"

definition stats_failing_env :: env where
  "stats_failing_env = example_env\<lparr>band_statistics := failing_statistics\<rparr>"



definition output_stats_failing_env :: env where
  "output_stats_failing_env = example_env\<lparr>band_statistics := output_failing_statistics\<rparr>"

section \<open>Unfolding and frame lemmas\<close>

lemmas ex_defs = example_dataset_def example_output_def example_world_def stale_world_def
  example_layer_def example_entry_def writing_engine_def code_engine_def never_locked_def
  always_locked_def is_a_directory_def locked_by_project_def unit_statistics_def
  none_statistics_def failing_statistics_def example_env_def locked_env_def env_with_code_def
  stats_failing_env_def output_failing_statistics_def output_stats_failing_env_def

lemmas plugin_defs = calculate_lst_def calculate_lst_try_def calculate_toa_def calculate_bt_def
  raster_calculation_def run_calculator_def check_result_def cleanup_existing_file_def
  os_remove_def path_exists_def output_path_of_def path_join_def QgsRasterLayer_def isValid_def
  create_raster_entry_def logMessage_def pushCritical_def pushSuccess_def addMapLayer_def
  style_thermal_layer_def extent_def width_def height_def error_map_get_def error_map_def

lemma example_paths:
  "output_path_of example_env n = n @ ''.tif''"
  "output_path_of (example_env\<lparr>remove_error := r\<rparr>) n = n @ ''.tif''"
  "output_path_of (env_with_code c) n = n @ ''.tif''"
  "output_path_of stats_failing_env n = n @ ''.tif''"
  "output_path_of output_stats_failing_env n = n @ ''.tif''"
  by (simp_all add: output_path_of_def path_join_def example_env_def env_with_code_def
      stats_failing_env_def output_stats_failing_env_def)










text \<open>A layer that \<^verbatim>\<open>raster_calculation\<close> returns was read back from the output path.\<close>

lemma returned_layer:
  "raster_calculation en formula entries output_name w = (Inr l, w') \<Longrightarrow>
      l = QgsRasterLayer (files w') (output_path_of en output_name) output_name \<and> isValid l"
  by (auto simp: raster_calculation_def run_calculator_def check_result_def Let_def
      logMessage_def split: sum.splits prod.splits list.splits if_splits)



lemma invalid_input_aborts:
  "\<not> isValid (QgsRasterLayer (files w) p ''B10_RAW'') \<Longrightarrow>
   calculate_lst_try en p w =
     (Inl (Exception [S ''Invalid Band 10 file. Check file format and path.'']), w)"
  by (simp add: calculate_lst_try_def)

lemma toa_failure_aborts:
  "isValid (QgsRasterLayer (files w) p ''B10_RAW'') \<Longrightarrow>
   calculate_toa en (QgsRasterLayer (files w) p ''B10_RAW'') 0.0003342 0.1
     (logMessage [S ''Calculating TOA...''] ''LST Plugin'' Info w) = (Inl e, w') \<Longrightarrow>
   calculate_lst_try en p w = (Inl e, w')"
  by (simp add: calculate_lst_try_def Let_def)

lemma bt_failure_aborts:
  "isValid (QgsRasterLayer (files w) p ''B10_RAW'') \<Longrightarrow>
   calculate_toa en (QgsRasterLayer (files w) p ''B10_RAW'') 0.0003342 0.1
     (logMessage [S ''Calculating TOA...''] ''LST Plugin'' Info w) = (Inr toa, wa) \<Longrightarrow>
   calculate_bt en toa (logMessage [S ''Calculating BT...''] ''LST Plugin'' Info wa) = (Inl e, w') \<Longrightarrow>
   calculate_lst_try en p w = (Inl e, w')"
  by (simp add: calculate_lst_try_def Let_def)



section \<open>The handler of the pipeline\<close>



section \<open>One evaluation: \<^verbatim>\<open>raster_calculation\<close>\<close>

text \<open>Steps that do not read a collaborator do not depend on it.\<close>

lemma validate_env_irrelevant:
  "band_statistics en' = band_statistics en \<Longrightarrow>
   validate_input_layers en' es w = validate_input_layers en es w"
  by (induction es arbitrary: w) (auto split: sum.splits)

lemma check_result_env_irrelevant:
  "band_statistics en' = band_statistics en \<Longrightarrow>
   check_result en' c p n w = check_result en c p n w"
  by (auto simp: check_result_def Let_def split: sum.splits)

lemma run_calculator_env_irrelevant:
  "band_statistics en' = band_statistics en \<Longrightarrow>
   process_calculation en' = process_calculation en \<Longrightarrow>
   run_calculator en' f es p n w = run_calculator en f es p n w"
  by (auto simp: run_calculator_def Let_def check_result_env_irrelevant[of en' en]
      split: list.splits prod.splits)

text \<open>
  C4. When a file exists at the output path \<open>p\<close> of an evaluation, the deletion comes
  first: if \<^verbatim>\<open>os.remove\<close> succeeds, the evaluation goes on exactly as in the world
  where the file is gone; if it raises \<^verbatim>\<open>PermissionError\<close>, the evaluation raises the
  exception \<^verbatim>\<open>File in use: p. Close other programs.\<close> and leaves the world as it was,
  and it does so whatever the engine is: the engine is not run.
\<close>

theorem locked_output_raises_before_engine:
  assumes "p = output_path_of en output_name" and "path_exists w p"
  shows "(remove_error en w p = None \<longrightarrow>
            raster_calculation en formula entries output_name w =
              raster_calculation en formula entries output_name
                (w\<lparr>files := (files w)(p := None)\<rparr>)
            \<and> \<not> path_exists (w\<lparr>files := (files w)(p := None)\<rparr>) p)
       \<and> (remove_error en w p = Some (PermissionError m) \<longrightarrow>
            (\<forall>engine. raster_calculation (en\<lparr>process_calculation := engine\<rparr>)
                 formula entries output_name w =
               (Inl (Exception [S ''File in use: '', S p, S ''. Close other programs.'']), w)))"
  using assms
  by (simp add: raster_calculation_def cleanup_existing_file_def os_remove_def path_exists_def
      output_path_of_def)

theorem locked_output_raises_before_engine_witness:
  "raster_calculation (example_env\<lparr>remove_error := always_locked\<rparr>)
      (toa_formula 0.0003342 0.1) [example_entry] ''TOA_Radiance'' stale_world =
     (Inl (Exception [S ''File in use: '', S ''TOA_Radiance.tif'', S ''. Close other programs.'']),
      stale_world)
   \<and> raster_calculation example_env (toa_formula 0.0003342 0.1) [example_entry]
        ''TOA_Radiance'' stale_world =
     raster_calculation example_env (toa_formula 0.0003342 0.1) [example_entry]
        ''TOA_Radiance'' example_world"
proof -
  have p: "''TOA_Radiance.tif'' = output_path_of example_env ''TOA_Radiance''"
    "''TOA_Radiance.tif'' =
       output_path_of (example_env\<lparr>remove_error := always_locked\<rparr>) ''TOA_Radiance''"
    by (simp_all add: example_paths)
  have e: "path_exists stale_world ''TOA_Radiance.tif''"
    by (simp add: path_exists_def stale_world_def)
  have w: "stale_world\<lparr>files := (files stale_world)(''TOA_Radiance.tif'' := None)\<rparr>
             = example_world"
    by (simp add: stale_world_def example_world_def)
  have r1: "remove_error example_env stale_world ''TOA_Radiance.tif'' = None"
    by (simp add: example_env_def never_locked_def)
  have r2: "remove_error (example_env\<lparr>remove_error := always_locked\<rparr>) stale_world
              ''TOA_Radiance.tif'' = Some (PermissionError [S ''[Errno 13] Permission denied''])"
    by (simp add: always_locked_def)
  have env: "example_env\<lparr>remove_error := always_locked, process_calculation := writing_engine\<rparr>
     = example_env\<lparr>remove_error := always_locked\<rparr>"
    by (simp add: example_env_def)
  from locked_output_raises_before_engine[OF p(1) e,
         of "toa_formula 0.0003342 0.1" "[example_entry]"]
       locked_output_raises_before_engine[OF p(2) e,
         of "toa_formula 0.0003342 0.1" "[example_entry]" "[S ''[Errno 13] Permission denied'']"]
  show ?thesis using r1 r2 w env by metis
qed

text \<open>
  C5, as the code has it. Once the cleanup and the validation of the inputs have passed,
  every result code of the engine other than 0 makes the evaluation raise, whatever the
  engine wrote: no layer is returned. The message is \<^verbatim>\<open>GDAL Error\<close>, the raw code, and
  the text of the code: one of four texts for the codes 1 to 4, and \<^verbatim>\<open>Unknown error\<close>
  for every other code.
\<close>

theorem engine_failure_codes:
  assumes "cleanup_existing_file en (output_path_of en output_name) w = Inr w1"
    and "validate_input_layers en (e0 # rest) w1 = (Inr (), w2)"
    and "process_calculation en
           \<lparr>formula_string = formula, output_file = output_path_of en output_name,
            output_format = ''GTiff'', output_extent = extent (raster e0),
            n_columns = width (raster e0), n_rows = height (raster e0),
            raster_entries = e0 # rest\<rparr> (files w2) = (result, fs)"
    and "result \<noteq> 0"
  shows "fst (raster_calculation en formula (e0 # rest) output_name w) =
           Inl (Exception [S ''GDAL Error '', I result, S '': '',
                  S (if result = 1 then ''Missing input layers''
                     else if result = 2 then ''Invalid formula syntax''
                     else if result = 3 then ''Calculation error (e.g., division by zero)''
                     else if result = 4 then ''GDAL internal error''
                     else ''Unknown error'')])"
  using assms
  by (simp add: raster_calculation_def run_calculator_def check_result_def Let_def
      logMessage_def error_map_get_def error_map_def)

theorem engine_failure_codes_witness:
  "fst (raster_calculation (env_with_code 3) (toa_formula 0.0003342 0.1) [example_entry]
          ''TOA_Radiance'' example_world) =
     Inl (Exception [S ''GDAL Error '', I 3, S '': '',
            S ''Calculation error (e.g., division by zero)''])"
proof -
  let ?w = "logMessage [S ''Input '', S ''b10@1'', S '' - Min: '', V (Some 0), S '', Max: '',
              V (Some 1)] ''LST Plugin'' Info example_world"
  have a: "cleanup_existing_file (env_with_code 3)
             (output_path_of (env_with_code 3) ''TOA_Radiance'') example_world = Inr example_world"
    by (simp add: cleanup_existing_file_def path_exists_def example_paths example_world_def)
  have b: "validate_input_layers (env_with_code 3) (example_entry # []) example_world
             = (Inr (), ?w)"
    by (simp add: ex_defs create_raster_entry_def QgsRasterLayer_def isValid_def)
  have c: "process_calculation (env_with_code 3)
           \<lparr>formula_string = toa_formula 0.0003342 0.1,
            output_file = output_path_of (env_with_code 3) ''TOA_Radiance'',
            output_format = ''GTiff'', output_extent = extent (raster example_entry),
            n_columns = width (raster example_entry), n_rows = height (raster example_entry),
            raster_entries = example_entry # []\<rparr> (files ?w) = (3, files ?w)"
    by (simp add: env_with_code_def code_engine_def)
  have d: "(3::int) \<noteq> 0" by simp
  from engine_failure_codes[OF a b c d] show ?thesis by simp
qed

text \<open>
  The claim as the specification states it fails at the result code 5: the message is
  \<^verbatim>\<open>Unknown error\<close>, which is none of the four texts of \<^verbatim>\<open>error_map\<close>.
\<close>

theorem engine_code_five_unknown:
  "fst (calculate_toa (env_with_code 5) example_layer 0.0003342 0.1 example_world) =
     Inl (Exception [S ''GDAL Error '', I 5, S '': '', S ''Unknown error''])
   \<and> error_map 5 = None
   \<and> ''Unknown error'' \<notin> {''Missing input layers'', ''Invalid formula syntax'',
        ''Calculation error (e.g., division by zero)'', ''GDAL internal error''}"
  by (simp add: ex_defs plugin_defs Let_def)

text \<open>
  C6. A layer that an evaluation returns is the layer read back from the output path
  in the files the evaluation leaves, it is valid, and the file there holds the raster
  the layer shows. When the engine reports the result code 0 and the layer read back
  from the output path is not valid, the evaluation raises
  \<^verbatim>\<open>Failed to create output layer:\<close> with the path.
\<close>

theorem returned_layer_is_reloaded_output:
  "(raster_calculation en formula entries output_name w = (Inr l, w') \<longrightarrow>
      l = QgsRasterLayer (files w') (output_path_of en output_name) output_name
      \<and> isValid l
      \<and> (\<exists>d. files w' (output_path_of en output_name) = Some (RasterFile d)
              \<and> provider l = Some d))
   \<and> (cleanup_existing_file en (output_path_of en output_name) w = Inr w1
      \<and> validate_input_layers en (e0 # rest) w1 = (Inr (), w2)
      \<and> process_calculation en
           \<lparr>formula_string = formula, output_file = output_path_of en output_name,
            output_format = ''GTiff'', output_extent = extent (raster e0),
            n_columns = width (raster e0), n_rows = height (raster e0),
            raster_entries = e0 # rest\<rparr> (files w2) = (0, fs)
      \<and> \<not> isValid (QgsRasterLayer fs (output_path_of en output_name) output_name) \<longrightarrow>
      fst (raster_calculation en formula (e0 # rest) output_name w) =
        Inl (Exception [S ''Failed to create output layer: '',
                        S (output_path_of en output_name)]))"
proof -
  have b: "l = QgsRasterLayer fs' p n \<Longrightarrow> isValid l \<Longrightarrow>
          \<exists>d. fs' p = Some (RasterFile d) \<and> provider l = Some d" for fs' p n
    by (auto simp: QgsRasterLayer_def isValid_def split: option.splits fentry.splits)
  have c: "cleanup_existing_file en (output_path_of en output_name) w = Inr w1 \<Longrightarrow>
      validate_input_layers en (e0 # rest) w1 = (Inr (), w2) \<Longrightarrow>
      process_calculation en
           \<lparr>formula_string = formula, output_file = output_path_of en output_name,
            output_format = ''GTiff'', output_extent = extent (raster e0),
            n_columns = width (raster e0), n_rows = height (raster e0),
            raster_entries = e0 # rest\<rparr> (files w2) = (0, fs) \<Longrightarrow>
      \<not> isValid (QgsRasterLayer fs (output_path_of en output_name) output_name) \<Longrightarrow>
      fst (raster_calculation en formula (e0 # rest) output_name w) =
        Inl (Exception [S ''Failed to create output layer: '',
                        S (output_path_of en output_name)])"
    by (simp add: raster_calculation_def run_calculator_def check_result_def Let_def
        logMessage_def)
  show ?thesis using returned_layer[of en formula entries output_name w l w'] b c by blast
qed

theorem returned_layer_is_reloaded_output_witness:
  "raster_calculation example_env (toa_formula 0.0003342 0.1) [example_entry]
      ''TOA_Radiance'' example_world =
     (Inr (QgsRasterLayer
             ((files example_world)(''TOA_Radiance.tif'' := Some (RasterFile example_output)))
             ''TOA_Radiance.tif'' ''TOA_Radiance''),
      snd (raster_calculation example_env (toa_formula 0.0003342 0.1) [example_entry]
            ''TOA_Radiance'' example_world))
   \<and> isValid (QgsRasterLayer
             ((files example_world)(''TOA_Radiance.tif'' := Some (RasterFile example_output)))
             ''TOA_Radiance.tif'' ''TOA_Radiance'')
   \<and> fst (raster_calculation (env_with_code 0) (toa_formula 0.0003342 0.1) [example_entry]
          ''TOA_Radiance'' example_world) =
       Inl (Exception [S ''Failed to create output layer: '', S ''TOA_Radiance.tif''])"
proof -
  let ?f = "toa_formula 0.0003342 0.1"
  let ?w = "logMessage [S ''Input '', S ''b10@1'', S '' - Min: '', V (Some 0), S '', Max: '',
              V (Some 1)] ''LST Plugin'' Info example_world"
  obtain l w' where r: "raster_calculation example_env ?f [example_entry] ''TOA_Radiance''
      example_world = (Inr l, w')"
    by (simp add: ex_defs plugin_defs Let_def)
  have fw: "files w' =
      (files example_world)(''TOA_Radiance.tif'' := Some (RasterFile example_output))"
    using r by (auto simp add: ex_defs plugin_defs Let_def)
  have a: "cleanup_existing_file (env_with_code 0)
             (output_path_of (env_with_code 0) ''TOA_Radiance'') example_world = Inr example_world"
    by (simp add: cleanup_existing_file_def path_exists_def example_paths example_world_def)
  have b: "validate_input_layers (env_with_code 0) (example_entry # []) example_world
             = (Inr (), ?w)"
    by (simp add: ex_defs create_raster_entry_def QgsRasterLayer_def isValid_def)
  have c: "process_calculation (env_with_code 0)
           \<lparr>formula_string = ?f,
            output_file = output_path_of (env_with_code 0) ''TOA_Radiance'',
            output_format = ''GTiff'', output_extent = extent (raster example_entry),
            n_columns = width (raster example_entry), n_rows = height (raster example_entry),
            raster_entries = example_entry # []\<rparr> (files ?w) = (0, files ?w)"
    by (simp add: env_with_code_def code_engine_def)
  have d: "\<not> isValid (QgsRasterLayer (files ?w)
               (output_path_of (env_with_code 0) ''TOA_Radiance'') ''TOA_Radiance'')"
    by (simp add: example_paths isValid_def QgsRasterLayer_def logMessage_def example_world_def)
  have A: "l = QgsRasterLayer (files w') (output_path_of example_env ''TOA_Radiance'')
                 ''TOA_Radiance'' \<and> isValid l"
    using returned_layer_is_reloaded_output[where en = example_env and formula = ?f
        and entries = "[example_entry]" and output_name = "''TOA_Radiance''"
        and w = example_world and l = l and w' = w'] r
    by blast
  have B: "fst (raster_calculation (env_with_code 0) ?f (example_entry # []) ''TOA_Radiance''
                 example_world) =
       Inl (Exception [S ''Failed to create output layer: '',
                       S (output_path_of (env_with_code 0) ''TOA_Radiance'')])"
    using returned_layer_is_reloaded_output[where en = "env_with_code 0" and formula = ?f
        and output_name = "''TOA_Radiance''" and w = example_world
        and ?w1.0 = example_world and ?e0.0 = example_entry and rest = "[]"
        and ?w2.0 = ?w and fs = "files ?w"] a b c d
    by blast
  show ?thesis using A B r fw by (auto simp: example_paths)
qed

text \<open>
  C10. In the cleanup of an existing output file only \<^verbatim>\<open>PermissionError\<close> becomes the
  exception \<^verbatim>\<open>File in use\<close> that names the path; any other exception of
  \<^verbatim>\<open>os.remove\<close> leaves the evaluation as it is, with the world untouched; and when no
  file exists at the output path the cleanup does nothing, and the evaluation is the
  same whatever \<^verbatim>\<open>os.remove\<close> would have raised.
\<close>

theorem only_permission_error_classified:
  assumes "p = output_path_of en output_name"
  shows "(path_exists w p \<and> remove_error en w p = Some (PermissionError m) \<longrightarrow>
            raster_calculation en formula entries output_name w =
              (Inl (Exception [S ''File in use: '', S p, S ''. Close other programs.'']), w))
       \<and> (path_exists w p \<and> remove_error en w p = Some e \<and> \<not> is_PermissionError e \<longrightarrow>
            raster_calculation en formula entries output_name w = (Inl e, w))
       \<and> (\<not> path_exists w p \<longrightarrow>
            cleanup_existing_file en p w = Inr w
            \<and> (\<forall>r. raster_calculation (en\<lparr>remove_error := r\<rparr>) formula entries output_name w =
                  raster_calculation en formula entries output_name w))"
proof -
  have a: "\<not> path_exists w p \<Longrightarrow>
        raster_calculation (en\<lparr>remove_error := r\<rparr>) formula entries output_name w =
        raster_calculation en formula entries output_name w" for r
    using assms
    by (auto simp: raster_calculation_def cleanup_existing_file_def output_path_of_def
        validate_env_irrelevant[of "en\<lparr>remove_error := r\<rparr>" en]
        run_calculator_env_irrelevant[of "en\<lparr>remove_error := r\<rparr>" en]
        split: prod.splits sum.splits)
  have b: "path_exists w p \<Longrightarrow> remove_error en w p = Some e \<Longrightarrow> \<not> is_PermissionError e \<Longrightarrow>
        raster_calculation en formula entries output_name w = (Inl e, w)"
    using assms
    by (cases e) (simp_all add: raster_calculation_def cleanup_existing_file_def os_remove_def)
  have c: "path_exists w p \<Longrightarrow> remove_error en w p = Some (PermissionError m) \<Longrightarrow>
            raster_calculation en formula entries output_name w =
              (Inl (Exception [S ''File in use: '', S p, S ''. Close other programs.'']), w)"
    using assms
    by (simp add: raster_calculation_def cleanup_existing_file_def os_remove_def)
  have d: "\<not> path_exists w p \<Longrightarrow> cleanup_existing_file en p w = Inr w"
    by (simp add: cleanup_existing_file_def)
  show ?thesis using a b c d by simp
qed

theorem only_permission_error_classified_witness:
  "raster_calculation (example_env\<lparr>remove_error := is_a_directory\<rparr>)
      (toa_formula 0.0003342 0.1) [example_entry] ''TOA_Radiance'' stale_world =
     (Inl (OSError [S ''[Errno 21] Is a directory'']), stale_world)
   \<and> raster_calculation (example_env\<lparr>remove_error := always_locked\<rparr>)
      (toa_formula 0.0003342 0.1) [example_entry] ''TOA_Radiance'' stale_world =
     (Inl (Exception [S ''File in use: '', S ''TOA_Radiance.tif'', S ''. Close other programs.'']),
      stale_world)
   \<and> raster_calculation (example_env\<lparr>remove_error := always_locked\<rparr>)
      (toa_formula 0.0003342 0.1) [example_entry] ''TOA_Radiance'' example_world =
     raster_calculation example_env
      (toa_formula 0.0003342 0.1) [example_entry] ''TOA_Radiance'' example_world"
proof -
  let ?f = "toa_formula 0.0003342 0.1"
  have e: "path_exists stale_world ''TOA_Radiance.tif''"
          "\<not> path_exists example_world ''TOA_Radiance.tif''"
    by (simp_all add: path_exists_def stale_world_def example_world_def)
  have A: "raster_calculation (example_env\<lparr>remove_error := is_a_directory\<rparr>)
      ?f [example_entry] ''TOA_Radiance'' stale_world =
     (Inl (OSError [S ''[Errno 21] Is a directory'']), stale_world)"
    using only_permission_error_classified[
        where en = "example_env\<lparr>remove_error := is_a_directory\<rparr>"
        and p = "''TOA_Radiance.tif''" and output_name = "''TOA_Radiance''" and w = stale_world
        and e = "OSError [S ''[Errno 21] Is a directory'']" and formula = ?f
        and entries = "[example_entry]"] e
    by (simp add: example_paths is_a_directory_def)
  have B: "raster_calculation (example_env\<lparr>remove_error := always_locked\<rparr>)
      ?f [example_entry] ''TOA_Radiance'' stale_world =
     (Inl (Exception [S ''File in use: '', S ''TOA_Radiance.tif'', S ''. Close other programs.'']),
      stale_world)"
    using only_permission_error_classified[
        where en = "example_env\<lparr>remove_error := always_locked\<rparr>"
        and p = "''TOA_Radiance.tif''" and output_name = "''TOA_Radiance''" and w = stale_world
        and m = "[S ''[Errno 13] Permission denied'']" and formula = ?f
        and entries = "[example_entry]"] e
    by (simp add: example_paths always_locked_def)
  have C: "raster_calculation (example_env\<lparr>remove_error := always_locked\<rparr>)
      ?f [example_entry] ''TOA_Radiance'' example_world =
     raster_calculation example_env ?f [example_entry] ''TOA_Radiance'' example_world"
    using only_permission_error_classified[where en = "example_env"
        and p = "''TOA_Radiance.tif''" and output_name = "''TOA_Radiance''"
        and w = example_world and formula = ?f and entries = "[example_entry]"] e
    by (simp add: example_paths)
  show ?thesis using A B C by simp
qed

section \<open>Band statistics\<close>









section \<open>The colour ramp\<close>





section \<open>Running the pipeline twice\<close>







end
